theory Spec2Isabelle
  imports Complex_Main "HOL-Library.Log_Nat"
begin

unbundle bit_operations_syntax

section \<open>Values, exceptions and data structures of qube_runtime.py\<close>

text \<open>
  Python strings are \<^typ>\<open>string\<close>: one \<^typ>\<open>char\<close> per code point, so the model covers
  the strings whose code points are below 256. Python integers are \<^typ>\<open>int\<close>. A finite
  Python float is the rational number it denotes exactly (\<^typ>\<open>rat\<close>); a decimal literal
  of the source is the double nearest to it, written out as a fraction. Order comparisons
  of finite floats are exact, arithmetic rounds (see \<open>fl\<close> below). NaN and the
  infinities are outside the model.
\<close>

type_synonym pyfloat = rat

text \<open>The exception classes that the built-ins below and \<open>json.loads\<close> raise.
  \<open>JSONDecodeError\<close> is a subclass of \<open>ValueError\<close>; no other two of them are
  related.\<close>

datatype exn_class =
    IndexError
  | ValueError
  | JSONDecodeError
  | KeyError
  | TypeError
  | ZeroDivisionError
  | RecursionError

text \<open>\<open>isinstance_exn c d\<close>: an exception of class \<open>c\<close> is caught by \<open>except d\<close>.\<close>

definition isinstance_exn :: "exn_class \<Rightarrow> exn_class \<Rightarrow> bool" where
  "isinstance_exn c d = (c = d \<or> (c = JSONDecodeError \<and> d = ValueError))"

text \<open>A value as \<open>json.loads\<close> produces it (\<open>Any\<close> in the type hints). A dict is the
  list of its items; its keys are distinct.\<close>

datatype pyval =
    PNone
  | PBool bool
  | PInt int
  | PFloat pyfloat
  | PStr string
  | PList "pyval list"
  | PDict "(string \<times> pyval) list"

section \<open>The Python built-ins that the code calls\<close>

subsection \<open>Lists and strings\<close>

text \<open>\<open>xs[i]\<close> for a constant index \<open>i \<ge> 0\<close>: \<open>IndexError\<close> out of range.\<close>

definition py_index :: "'a list \<Rightarrow> nat \<Rightarrow> exn_class + 'a" where
  "py_index xs i = (if i < length xs then Inr (xs ! i) else Inl IndexError)"

text \<open>Sequencing of statements that may raise: the first exception ends the sequence.\<close>

definition bind_exn :: "'e + 'a \<Rightarrow> ('a \<Rightarrow> 'e + 'b) \<Rightarrow> 'e + 'b" where
  "bind_exn m f = (case m of Inl e \<Rightarrow> Inl e | Inr v \<Rightarrow> f v)"

text \<open>\<open>s.split(sep)\<close> for a non-empty separator: the pieces between the
  non-overlapping occurrences of \<open>sep\<close>, found from the left.\<close>

function py_split_from :: "string \<Rightarrow> string \<Rightarrow> string \<Rightarrow> string list" where
  "py_split_from sep cur [] = [rev cur]"
| "py_split_from sep cur (c # cs) =
     (if sep \<noteq> [] \<and> take (length sep) (c # cs) = sep
      then rev cur # py_split_from sep [] (drop (length sep) (c # cs))
      else py_split_from sep (c # cur) cs)"
  by pat_completeness auto
termination
  by (relation "measure (\<lambda>(sep, cur, s). length s)") auto

definition py_split :: "string \<Rightarrow> string \<Rightarrow> string list" where
  "py_split s sep = py_split_from sep [] s"

text \<open>\<open>s.strip()\<close> removes the characters for which \<open>str.isspace\<close> holds from both
  ends: code points 9 to 13, 28 to 32, 133 and 160 among those below 256.\<close>

definition str_space :: "char \<Rightarrow> bool" where
  "str_space c = (of_char c \<in> set [9, 10, 11, 12, 13, 28, 29, 30, 31, 32, 133, 160 :: nat])"

definition py_strip :: "string \<Rightarrow> string" where
  "py_strip s = rev (dropWhile str_space (rev (dropWhile str_space s)))"

subsection \<open>\<open>int(s)\<close> and \<open>int(s, 16)\<close>\<close>

text \<open>
  CPython's \<open>PyLong_FromString\<close>: leading white space, an optional sign, for base 16 an
  optional \<open>0x\<close> or \<open>0X\<close> (which one underscore may follow), then digits with single
  underscores between them, then trailing white space and the end of the string.
  Anything else is \<open>ValueError\<close>, as is a decimal string of more than 4300 digits.
\<close>

definition int_space :: "char \<Rightarrow> bool" where
  "int_space c = (of_char c \<in> set [9, 10, 11, 12, 13, 32, 133, 160 :: nat])"

definition digit_value :: "char \<Rightarrow> nat option" where
  "digit_value c =
     (let n = of_char c :: nat in
      if 48 \<le> n \<and> n \<le> 57 then Some (n - 48)
      else if 97 \<le> n \<and> n \<le> 122 then Some (n - 87)
      else if 65 \<le> n \<and> n \<le> 90 then Some (n - 55)
      else None)"

text \<open>\<open>scan_digits base prev_us acc s\<close> reads digits and underscores from \<open>s\<close>;
  \<open>prev_us\<close> says that the character before was an underscore. It returns the value
  read and the rest of the string, or \<open>None\<close> for a doubled or a trailing underscore.\<close>

fun scan_digits :: "nat \<Rightarrow> bool \<Rightarrow> nat \<Rightarrow> string \<Rightarrow> (nat \<times> string) option" where
  "scan_digits base prev_us acc [] = (if prev_us then None else Some (acc, []))"
| "scan_digits base prev_us acc (c # cs) =
     (if c = CHR ''_'' then (if prev_us then None else scan_digits base True acc cs)
      else case digit_value c of
             Some d \<Rightarrow>
               if d < base then scan_digits base False (acc * base + d) cs
               else if prev_us then None else Some (acc, c # cs)
           | None \<Rightarrow> if prev_us then None else Some (acc, c # cs))"

definition int_max_str_digits :: nat where
  "int_max_str_digits = 4300"

definition skip_sign :: "string \<Rightarrow> bool \<times> string" where
  "skip_sign s =
     (case s of
        [] \<Rightarrow> (False, s)
      | c # r \<Rightarrow>
          if c = CHR ''+'' then (False, r)
          else if c = CHR ''-'' then (True, r)
          else (False, s))"

definition skip_prefix :: "nat \<Rightarrow> string \<Rightarrow> string" where
  "skip_prefix base s =
     (case s of
        a # b # r \<Rightarrow>
          if base = 16 \<and> a = CHR ''0'' \<and> (b = CHR ''x'' \<or> b = CHR ''X'')
          then (case r of [] \<Rightarrow> r | u # r' \<Rightarrow> if u = CHR ''_'' then r' else r)
          else s
      | _ \<Rightarrow> s)"

definition py_int :: "string \<Rightarrow> nat \<Rightarrow> exn_class + int" where
  "py_int s base =
     (let (neg, s2) = skip_sign (dropWhile int_space s);
          s3 = skip_prefix base s2
      in case s3 of
           [] \<Rightarrow> Inl ValueError
         | c # r \<Rightarrow>
             if c = CHR ''_'' then Inl ValueError
             else (case scan_digits base False 0 s3 of
                     None \<Rightarrow> Inl ValueError
                   | Some (v, rest) \<Rightarrow>
                       let used = take (length s3 - length rest) s3 in
                       if used = [] then Inl ValueError
                       else if base = 10 \<and>
                               length (filter (\<lambda>c. c \<noteq> CHR ''_'') used) > int_max_str_digits
                         then Inl ValueError
                       else if dropWhile int_space rest \<noteq> [] then Inl ValueError
                       else Inr (if neg then - int v else int v)))"

subsection \<open>Float arithmetic\<close>

text \<open>
  IEEE 754 binary64, round to nearest, ties to even, on finite values. In \<open>quantum x\<close>,
  \<open>e\<close> is the binary exponent of \<open>x\<close>, that is \<open>2 ^ e \<le> \<bar>x\<bar> < 2 ^ (e + 1)\<close>
  (\<open>bitlen n\<close> is the number of binary digits of \<open>n\<close>), and the result is the spacing
  of the doubles around \<open>x\<close>: a 53-bit significand, gradual underflow below
  \<open>2 ^ -1022\<close>. \<open>fl x\<close> is the double nearest to \<open>x\<close>. Overflow to infinity is
  outside the model; no operation of \<open>get_phase_quadrant\<close> comes near it.
\<close>

definition quantum :: "rat \<Rightarrow> rat" where
  "quantum x =
     (let a = \<bar>x\<bar>;
          e = (if a \<ge> 1 then bitlen \<lfloor>a\<rfloor> - 1 else - bitlen (\<lceil>1 / a\<rceil> - 1));
          q = max (e - 52) (- 1074)
      in if q \<ge> 0 then 2 ^ nat q else 1 / 2 ^ nat (- q))"

definition round_half_even :: "rat \<Rightarrow> int" where
  "round_half_even t =
     (let f = \<lfloor>t\<rfloor>; r = t - of_int f
      in if r < 1 / 2 then f else if r > 1 / 2 then f + 1 else if even f then f else f + 1)"

definition fl :: "rat \<Rightarrow> pyfloat" where
  "fl x = (if x = 0 then 0 else of_int (round_half_even (x / quantum x)) * quantum x)"

text \<open>Rounding towards zero: C's conversion of a double to an integer, Python's
  \<open>int(x)\<close> on a finite float.\<close>

definition py_trunc :: "rat \<Rightarrow> int" where
  "py_trunc t = (if t \<ge> 0 then \<lfloor>t\<rfloor> else \<lceil>t\<rceil>)"

text \<open>C's \<open>fmod\<close> is exact: the remainder of the division truncated towards zero.\<close>

definition c_fmod :: "pyfloat \<Rightarrow> pyfloat \<Rightarrow> pyfloat" where
  "c_fmod x y = x - of_int (py_trunc (x / y)) * y"

definition float_mul :: "pyfloat \<Rightarrow> pyfloat \<Rightarrow> pyfloat" where
  "float_mul vx wx = fl (vx * wx)"

definition float_truediv :: "pyfloat \<Rightarrow> pyfloat \<Rightarrow> exn_class + pyfloat" where
  "float_truediv vx wx = (if wx = 0 then Inl ZeroDivisionError else Inr (fl (vx / wx)))"

text \<open>\<open>vx % wx\<close> on floats, CPython's \<open>float_rem\<close>. The addition rounds.
  \<^verbatim>\<open>
  if (wx == 0.0) raise ZeroDivisionError
  mod = fmod(vx, wx);
  if (mod) { if ((wx < 0) != (mod < 0)) mod += wx; }
  else mod = copysign(0.0, wx);
  return mod;
  \<close>
  The sign of a zero is not modelled.\<close>

definition float_rem :: "pyfloat \<Rightarrow> pyfloat \<Rightarrow> exn_class + pyfloat" where
  "float_rem vx wx =
     (if wx = 0 then Inl ZeroDivisionError
      else let m = c_fmod vx wx
           in if m \<noteq> 0 then (if (wx < 0) \<noteq> (m < 0) then Inr (fl (m + wx)) else Inr m)
              else Inr 0)"

text \<open>\<open>vx // wx\<close> on floats, CPython's \<open>float_floor_div\<close>. Every operation
  rounds.
  \<^verbatim>\<open>
  if (wx == 0.0) raise ZeroDivisionError
  mod = fmod(vx, wx);
  div = (vx - mod) / wx;
  if (mod) { if ((wx < 0) != (mod < 0)) { mod += wx; div -= 1.0; } }
  else mod = copysign(0.0, wx);
  if (div) { floordiv = floor(div); if (div - floordiv > 0.5) floordiv += 1.0; }
  else floordiv = copysign(0.0, vx / wx);
  return floordiv;
  \<close>\<close>

definition float_floor_div :: "pyfloat \<Rightarrow> pyfloat \<Rightarrow> exn_class + pyfloat" where
  "float_floor_div vx wx =
     (if wx = 0 then Inl ZeroDivisionError
      else let m = c_fmod vx wx;
               d = fl (fl (vx - m) / wx);
               d' = (if m \<noteq> 0 \<and> (wx < 0) \<noteq> (m < 0) then fl (d - 1) else d)
           in if d' \<noteq> 0
              then let f = of_int \<lfloor>d'\<rfloor>
                   in if fl (d' - f) > 1 / 2 then Inr (fl (f + 1)) else Inr f
              else Inr 0)"

text \<open>\<open>math.pi\<close> is the double \<open>0x1.921fb54442d18p+1\<close>.\<close>

definition math_pi :: pyfloat where
  "math_pi = 884279719003555 / 2 ^ 48"

text \<open>The doubles that the float literals of the source and of its tests denote
  (\<open>float.as_integer_ratio\<close>).\<close>

definition lit_0_3 :: pyfloat where "lit_0_3 = 5404319552844595 / 2 ^ 54"
definition lit_0_7 :: pyfloat where "lit_0_7 = 3152519739159347 / 2 ^ 52"
definition lit_0_8 :: pyfloat where "lit_0_8 = 3602879701896397 / 2 ^ 52"
definition lit_0_95 :: pyfloat where "lit_0_95 = 4278419646001971 / 2 ^ 52"
definition lit_0_5 :: pyfloat where "lit_0_5 = 1 / 2"
definition lit_0_1 :: pyfloat where "lit_0_1 = 3602879701896397 / 2 ^ 55"

section \<open>StateVectorInterpreter\<close>

text \<open>\<open>normalized = phi % (2 * math.pi)\<close>, then
  \<open>int(normalized // (math.pi / 2))\<close>.\<close>

definition get_phase_quadrant :: "pyfloat \<Rightarrow> exn_class + int" where
  "get_phase_quadrant phi =
     bind_exn (float_rem phi (float_mul 2 math_pi)) (\<lambda>normalized.
     bind_exn (float_truediv math_pi 2) (\<lambda>half_pi.
     bind_exn (float_floor_div normalized half_pi) (\<lambda>q.
     Inr (py_trunc q))))"

text \<open>The formula of the specification in exact real arithmetic, for comparison: the
  phase normalised into \<open>[0, 2\<pi>)\<close> by the floored modulo, divided by \<open>\<pi>/2\<close>, floored.\<close>

definition quadrant_exact :: "real \<Rightarrow> int" where
  "quadrant_exact phi = \<lfloor>(phi - 2 * pi * of_int \<lfloor>phi / (2 * pi)\<rfloor>) / (pi / 2)\<rfloor>"

section \<open>Data structures\<close>

record StateVector =
  phi :: pyval
  psi :: pyval
  omega :: pyval
  tau :: pyval

record TokenPixel =
  tokenPixelId :: pyval
  timestamp :: pyval
  agentId :: pyval
  corridor :: pyval
  stateVector :: StateVector
  intentHash :: pyval
  eventDelta :: pyval
  autonomyIndex :: pyval
  voxelSignature :: pyval
  prevHash :: pyval
  hash :: pyval

record Corridor =
  district :: int
  chamber :: string
  node :: string

record ActionResult =
  success :: bool
  result :: pyval
  error :: "string option"

text \<open>\<open>class DriftStatus\<close> is a namespace of three string constants.\<close>

definition DriftStatus_NOMINAL :: string where "DriftStatus_NOMINAL = ''NOMINAL''"
definition DriftStatus_WARNING :: string where "DriftStatus_WARNING = ''WARNING''"
definition DriftStatus_CRITICAL :: string where "DriftStatus_CRITICAL = ''CRITICAL''"

section \<open>TokenPixelDeserializer\<close>

text \<open>\<open>data[key]\<close> for a string key: \<open>KeyError\<close> on a dict without the key,
  \<open>TypeError\<close> on every value that is not a dict (a list or a string takes integer
  indices only, the others are not subscriptable).\<close>

fun subscript :: "pyval \<Rightarrow> string \<Rightarrow> exn_class + pyval" where
  "subscript (PDict kvs) key = (case map_of kvs key of None \<Rightarrow> Inl KeyError | Some v \<Rightarrow> Inr v)"
| "subscript _ key = Inl TypeError"

text \<open>\<open>StateVector(**d)\<close>: the generated \<open>__init__\<close> takes exactly the keywords
  \<open>phi\<close>, \<open>psi\<close>, \<open>omega\<close>, \<open>tau\<close>. A missing or an unexpected keyword, and a \<open>d\<close>
  that is not a mapping, are \<open>TypeError\<close>. No field type is checked.\<close>

fun StateVector_kwargs :: "pyval \<Rightarrow> exn_class + StateVector" where
  "StateVector_kwargs (PDict kvs) =
     (if list_all (\<lambda>(k, v). k \<in> set [''phi'', ''psi'', ''omega'', ''tau'']) kvs
      then (case (map_of kvs ''phi'', map_of kvs ''psi'', map_of kvs ''omega'', map_of kvs ''tau'') of
              (Some a, Some b, Some c, Some d) \<Rightarrow> Inr \<lparr>phi = a, psi = b, omega = c, tau = d\<rparr>
            | _ \<Rightarrow> Inl TypeError)
      else Inl TypeError)"
| "StateVector_kwargs _ = Inl TypeError"

text \<open>The call \<open>TokenPixel(tokenPixelId=data["tokenPixelId"], ...)\<close>: the keyword
  arguments are evaluated from left to right and the first exception ends the call.\<close>

definition TokenPixel_of :: "pyval \<Rightarrow> exn_class + TokenPixel" where
  "TokenPixel_of data =
     bind_exn (subscript data ''tokenPixelId'') (\<lambda>v1.
     bind_exn (subscript data ''timestamp'') (\<lambda>v2.
     bind_exn (subscript data ''agentId'') (\<lambda>v3.
     bind_exn (subscript data ''corridor'') (\<lambda>v4.
     bind_exn (subscript data ''stateVector'') (\<lambda>d.
     bind_exn (StateVector_kwargs d) (\<lambda>v5.
     bind_exn (subscript data ''intentHash'') (\<lambda>v6.
     bind_exn (subscript data ''eventDelta'') (\<lambda>v7.
     bind_exn (subscript data ''autonomyIndex'') (\<lambda>v8.
     bind_exn (subscript data ''voxelSignature'') (\<lambda>v9.
     bind_exn (subscript data ''prevHash'') (\<lambda>v10.
     bind_exn (subscript data ''hash'') (\<lambda>v11.
     Inr \<lparr>tokenPixelId = v1, timestamp = v2, agentId = v3, corridor = v4, stateVector = v5,
          intentHash = v6, eventDelta = v7, autonomyIndex = v8, voxelSignature = v9,
          prevHash = v10, hash = v11\<rparr>))))))))))))"

text \<open>
  \<open>parse\<close>. The decoder \<open>json.loads\<close> is a parameter: it returns the decoded value or
  raises (\<open>JSONDecodeError\<close> on malformed text). \<open>parse_try\<close> is the body of the
  \<open>try\<close>; \<open>parse\<close> adds the two handlers, \<open>except json.JSONDecodeError\<close> and
  \<open>except KeyError\<close>, which both return \<open>None\<close>. \<open>Inl e\<close> is an exception that
  reaches the caller.
\<close>

definition parse_try :: "(string \<Rightarrow> exn_class + pyval) \<Rightarrow> string \<Rightarrow> exn_class + TokenPixel option" where
  "parse_try json_loads line =
     (if py_strip line = [] then Inr None
      else bind_exn (json_loads line) (\<lambda>data.
           bind_exn (TokenPixel_of data) (\<lambda>p. Inr (Some p))))"

definition parse :: "(string \<Rightarrow> exn_class + pyval) \<Rightarrow> string \<Rightarrow> exn_class + TokenPixel option" where
  "parse json_loads line =
     (case parse_try json_loads line of
        Inr r \<Rightarrow> Inr r
      | Inl e \<Rightarrow>
          if isinstance_exn e JSONDecodeError then Inr None
          else if isinstance_exn e KeyError then Inr None
          else Inl e)"

section \<open>CorridorNavigator\<close>

definition UNKNOWN_corridor :: Corridor where
  "UNKNOWN_corridor = \<lparr>district = 0, chamber = ''UNKNOWN'', node = ''UNKNOWN''\<rparr>"

text \<open>The body of the \<open>try\<close> in \<open>parse_corridor\<close>, statement by statement.\<close>

definition parse_corridor_try :: "string \<Rightarrow> exn_class + Corridor" where
  "parse_corridor_try corridor_str =
     (let parts = py_split corridor_str ''.'' in
      bind_exn (py_index parts 0) (\<lambda>p0.
      bind_exn (py_index (py_split p0 ''_'') 1) (\<lambda>d.
      bind_exn (py_int d 10) (\<lambda>district.
      bind_exn (py_index parts 1) (\<lambda>chamber.
      bind_exn (py_index parts 2) (\<lambda>node.
      Inr \<lparr>district = district, chamber = chamber, node = node\<rparr>))))))"

text \<open>\<open>except (IndexError, ValueError)\<close> returns the sentinel.\<close>

definition parse_corridor :: "string \<Rightarrow> exn_class + Corridor" where
  "parse_corridor corridor_str =
     (case parse_corridor_try corridor_str of
        Inr c \<Rightarrow> Inr c
      | Inl e \<Rightarrow>
          if isinstance_exn e IndexError \<or> isinstance_exn e ValueError
          then Inr UNKNOWN_corridor
          else Inl e)"

section \<open>VoxelCollisionDetector\<close>

text \<open>The body of the \<open>try\<close> in \<open>decode_voxel_signature\<close>, up to the masking.\<close>

definition decode_try :: "string \<Rightarrow> exn_class + int" where
  "decode_try signature =
     bind_exn (py_index (py_split signature ''0x'') 1) (\<lambda>h.
     bind_exn (py_int h 16) (\<lambda>hash_val.
     Inr (hash_val AND 0x7FFFFFF)))"

text \<open>\<open>decode_voxel_signature\<close> takes the cache and returns the result with the cache
  as the call leaves it: a hit returns the cached value, a decoded value is stored, and
  \<open>except (IndexError, ValueError)\<close> returns 0 without storing it.\<close>

definition decode_voxel_signature ::
  "(string \<rightharpoonup> int) \<Rightarrow> string \<Rightarrow> (exn_class + int) \<times> (string \<rightharpoonup> int)" where
  "decode_voxel_signature voxel_cache signature =
     (case voxel_cache signature of
        Some bits \<Rightarrow> (Inr bits, voxel_cache)
      | None \<Rightarrow>
          (case decode_try signature of
             Inr bits \<Rightarrow> (Inr bits, voxel_cache(signature \<mapsto> bits))
           | Inl e \<Rightarrow>
               if isinstance_exn e IndexError \<or> isinstance_exn e ValueError
               then (Inr 0, voxel_cache)
               else (Inl e, voxel_cache)))"




section \<open>AutonomyDriftMonitor\<close>

record AutonomyDriftMonitor =
  warning_threshold :: pyfloat
  critical_threshold :: pyfloat
  drift_history :: "pyfloat list"

text \<open>\<open>__init__(warning_threshold=0.3, critical_threshold=0.7)\<close>.\<close>

definition AutonomyDriftMonitor_init :: "pyfloat \<Rightarrow> pyfloat \<Rightarrow> AutonomyDriftMonitor" where
  "AutonomyDriftMonitor_init w c =
     \<lparr>warning_threshold = w, critical_threshold = c, drift_history = []\<rparr>"

text \<open>\<open>check_drift\<close> appends to the history, pops index 0 when the history has more
  than 100 entries, then classifies. It returns the status and the updated monitor.\<close>

definition check_drift :: "AutonomyDriftMonitor \<Rightarrow> pyfloat \<Rightarrow> string \<times> AutonomyDriftMonitor" where
  "check_drift self autonomy_index =
     (let h = drift_history self @ [autonomy_index];
          h' = (if length h > 100 then tl h else h);
          self' = self\<lparr>drift_history := h'\<rparr>
      in if autonomy_index \<ge> critical_threshold self' then (DriftStatus_CRITICAL, self')
         else if autonomy_index \<ge> warning_threshold self' then (DriftStatus_WARNING, self')
         else (DriftStatus_NOMINAL, self'))"

text \<open>A sequence of calls on one monitor, in arrival order.\<close>

fun check_drift_all :: "AutonomyDriftMonitor \<Rightarrow> pyfloat list \<Rightarrow> AutonomyDriftMonitor" where
  "check_drift_all self [] = self"
| "check_drift_all self (x # xs) = check_drift_all (snd (check_drift self x)) xs"

section \<open>ActionExecutor\<close>

text \<open>
  An exception object raised by a registered callable, as \<open>execute\<close> observes it: the
  name of its class, whether \<open>isinstance(e, Exception)\<close> holds (it does not for
  \<open>SystemExit\<close>, \<open>KeyboardInterrupt\<close>, \<open>GeneratorExit\<close>, \<open>asyncio.CancelledError\<close>
  and any class that a program derives from \<open>BaseException\<close> alone), and what
  \<open>str(e)\<close> does: it returns the message, or it raises an exception itself when the
  class has a \<open>__str__\<close> that fails.
\<close>

datatype pyexn =
  PyExn (exn_name: string) (derives_Exception: bool) (exn_str: "pyexn + string")

text \<open>
  An entry of the registry is a callable or any other value. Calling it with the
  keyword arguments \<open>**params\<close> returns a value or raises an exception; a
  \<open>TypeError\<close> for keywords that the callable does not take is one such exception.
\<close>

datatype registry_entry =
    Callable "(string \<rightharpoonup> pyval) \<Rightarrow> pyexn + pyval"
  | NotCallable pyval

text \<open>The body of the \<open>try\<close> in \<open>execute\<close>.\<close>

definition execute_try :: "registry_entry \<Rightarrow> (string \<rightharpoonup> pyval) \<Rightarrow> pyexn + ActionResult" where
  "execute_try action_func params =
     (case action_func of
        Callable f \<Rightarrow>
          (case f params of
             Inl e \<Rightarrow> Inl e
           | Inr r \<Rightarrow> Inr \<lparr>success = True, result = r, error = None\<rparr>)
      | NotCallable v \<Rightarrow> Inr \<lparr>success = True, result = v, error = None\<rparr>)"

text \<open>
  \<open>except Exception as e\<close> takes the exceptions for which \<open>isinstance(e, Exception)\<close>
  holds and lets every other one through. The handler formats \<open>e\<close> for the log and
  then builds the result from \<open>str(e)\<close>; it has no \<open>try\<close> of its own, so an
  exception raised by \<open>str(e)\<close> leaves \<open>execute\<close>. \<open>Inl e\<close> is an exception that
  reaches the caller.
\<close>

definition execute ::
  "(string \<rightharpoonup> registry_entry) \<Rightarrow> string \<Rightarrow> (string \<rightharpoonup> pyval) \<Rightarrow> pyexn + ActionResult" where
  "execute registry action_name params =
     (case registry action_name of
        None \<Rightarrow>
          Inr \<lparr>success = False, result = PNone,
               error = Some (''Unknown action: '' @ action_name)\<rparr>
      | Some action_func \<Rightarrow>
          (case execute_try action_func params of
             Inr r \<Rightarrow> Inr r
           | Inl e \<Rightarrow>
               if derives_Exception e
               then (case exn_str e of
                       Inl e' \<Rightarrow> Inl e'
                     | Inr msg \<Rightarrow> Inr \<lparr>success = False, result = PNone, error = Some msg\<rparr>)
               else Inl e))"

section \<open>QubeRuntime.decide\<close>

record Decision =
  action :: string
  reason :: string
  params :: "string \<rightharpoonup> pyval"

text \<open>The keyword arguments that \<open>process_pixel\<close> passes to \<open>decide\<close>.\<close>

record Context =
  corridor :: Corridor
  quadrant :: int
  aligned :: bool
  activity :: string
  drift_status :: string
  collision_ahead :: bool
  intent_label :: "string option"
  pixel :: TokenPixel

definition decide :: "Context \<Rightarrow> Decision" where
  "decide context =
     (if drift_status context = DriftStatus_CRITICAL then
        \<lparr>action = ''HALT'', reason = ''Critical autonomy drift detected'', params = Map.empty\<rparr>
      else if collision_ahead context then
        \<lparr>action = ''AVOID_OBSTACLE'', reason = ''Collision detected in voxel neighborhood'',
         params = [''direction'' \<mapsto> PStr ''left'']\<rparr>
      else if \<not> aligned context then
        \<lparr>action = ''REALIGN_INTENT'', reason = ''Intent alignment below threshold'',
         params = [''target_psi'' \<mapsto> PFloat lit_0_8]\<rparr>
      else if intent_label context = Some ''EXECUTE_URGENT'' then
        \<lparr>action = ''EXECUTE_IMMEDIATE'', reason = ''Urgent intent detected'', params = Map.empty\<rparr>
      else
        \<lparr>action = ''CONTINUE'', reason = ''Nominal operation'', params = Map.empty\<rparr>)"

section \<open>Example inputs\<close>

text \<open>The record of the test suite (\<open>sample_pixel_json\<close>, decoded) and the context that
  \<open>process_pixel\<close> builds for it.\<close>

definition sample_pixel :: TokenPixel where
  "sample_pixel =
     \<lparr>tokenPixelId = PStr ''TPX_TEST_01'', timestamp = PFloat 1737140000,
      agentId = PStr ''AGENT_Q'', TokenPixel.corridor = PStr ''DISTRICT_1.CHAMBER_0.NODE_START'',
      stateVector = \<lparr>phi = PFloat (1 / 2), psi = PFloat (8106479329266893 / 2 ^ 53),
                      omega = PFloat 1, tau = PFloat 100\<rparr>,
      intentHash = PStr ''sha256:9f2c8d1e'', eventDelta = PStr ''EVENT_001'',
      autonomyIndex = PFloat lit_0_1, voxelSignature = PStr ''VXL_0x00000000'',
      prevHash = PStr ''hash_prev'', hash = PStr ''hash_curr''\<rparr>"

definition sample_context :: Context where
  "sample_context =
     \<lparr>corridor = \<lparr>district = 1, chamber = ''CHAMBER_0'', node = ''NODE_START''\<rparr>,
      quadrant = 0, aligned = True, activity = ''ACTIVE'', drift_status = ''NOMINAL'',
      collision_ahead = False, intent_label = Some ''EXECUTE_TASK'', pixel = sample_pixel\<rparr>"

text \<open>Critical drift, a collision ahead and no alignment at once.\<close>

definition critical_collision_context :: Context where
  "critical_collision_context =
     sample_context\<lparr>drift_status := ''CRITICAL'', collision_ahead := True, aligned := False\<rparr>"

text \<open>A context with the same four deciding entries and every other entry changed.\<close>

definition other_context :: Context where
  "other_context =
     \<lparr>corridor = UNKNOWN_corridor,
      quadrant = 3, aligned = True, activity = ''IDLE'', drift_status = ''NOMINAL'',
      collision_ahead = False, intent_label = Some ''EXECUTE_TASK'',
      pixel = sample_pixel\<lparr>tokenPixelId := PStr ''TPX_TEST_02''\<rparr>\<rparr>"

text \<open>The record of the test suite without \<open>phi\<close> in its \<open>stateVector\<close>: the line
  of text and the value that \<open>json.loads\<close> returns for it.\<close>

definition missing_phi_line :: string where
  \<open>missing_phi_line = ''{"tokenPixelId": "TPX_TEST_01", "timestamp": 1737140000.0, "agentId": "AGENT_Q", "corridor": "DISTRICT_1.CHAMBER_0.NODE_START", "stateVector": {"psi": 0.9, "omega": 1.0, "tau": 100.0}, "intentHash": "sha256:9f2c8d1e", "eventDelta": "EVENT_001", "autonomyIndex": 0.1, "voxelSignature": "VXL_0x00000000", "prevHash": "hash_prev", "hash": "hash_curr"}''\<close>

definition missing_phi_stateVector :: "(string \<times> pyval) list" where
  "missing_phi_stateVector =
     [(''psi'', PFloat (8106479329266893 / 2 ^ 53)), (''omega'', PFloat 1), (''tau'', PFloat 100)]"

definition missing_phi_items :: "(string \<times> pyval) list" where
  "missing_phi_items =
     [(''tokenPixelId'', PStr ''TPX_TEST_01''), (''timestamp'', PFloat 1737140000),
      (''agentId'', PStr ''AGENT_Q''),
      (''corridor'', PStr ''DISTRICT_1.CHAMBER_0.NODE_START''),
      (''stateVector'', PDict missing_phi_stateVector),
      (''intentHash'', PStr ''sha256:9f2c8d1e''), (''eventDelta'', PStr ''EVENT_001''),
      (''autonomyIndex'', PFloat lit_0_1), (''voxelSignature'', PStr ''VXL_0x00000000''),
      (''prevHash'', PStr ''hash_prev''), (''hash'', PStr ''hash_curr'')]"

text \<open>A decoder that is known on one line only: it returns the given value for that
  line and rejects every other text.\<close>

definition decodes_to :: "string \<Rightarrow> pyval \<Rightarrow> string \<Rightarrow> exn_class + pyval" where
  "decodes_to text v = (\<lambda>line. if line = text then Inr v else Inl JSONDecodeError)"

text \<open>The double that the JSON number \<open>-1e-20\<close> denotes.\<close>

definition phi_minus_1e_20 :: pyfloat where
  "phi_minus_1e_20 = - 6646139978924579 / 2 ^ 119"

text \<open>A registry with a callable that takes no keyword, a callable that fails, a
  callable that is interrupted from the keyboard, a callable whose exception has a
  failing \<open>__str__\<close>, and an entry that is not callable.\<close>

definition continue_op :: "(string \<rightharpoonup> pyval) \<Rightarrow> pyexn + pyval" where
  "continue_op kwargs =
     (if kwargs = Map.empty then Inr (PDict [(''status'', PStr ''CONTINUING'')])
      else Inl (PyExn ''TypeError'' True
                  (Inr ''continue_op() got an unexpected keyword argument'')))"

definition failing_action :: "(string \<rightharpoonup> pyval) \<Rightarrow> pyexn + pyval" where
  "failing_action kwargs = Inl (PyExn ''RuntimeError'' True (Inr ''actuator offline''))"

definition interrupted_action :: "(string \<rightharpoonup> pyval) \<Rightarrow> pyexn + pyval" where
  "interrupted_action kwargs = Inl (PyExn ''KeyboardInterrupt'' False (Inr []))"

definition unprintable_action :: "(string \<rightharpoonup> pyval) \<Rightarrow> pyexn + pyval" where
  "unprintable_action kwargs =
     Inl (PyExn ''SensorError'' True
            (Inl (PyExn ''AttributeError'' True (Inr ''object has no attribute code''))))"

definition sample_registry :: "string \<rightharpoonup> registry_entry" where
  "sample_registry =
     [''CONTINUE'' \<mapsto> Callable continue_op,
      ''FAIL'' \<mapsto> Callable failing_action,
      ''STOP'' \<mapsto> Callable interrupted_action,
      ''SENSE'' \<mapsto> Callable unprintable_action,
      ''VERSION'' \<mapsto> NotCallable (PStr ''1.0'')]"

section \<open>Lemmas about the built-ins\<close>

lemma bind_exn_Inl: "bind_exn (Inl e) f = Inl e"
  by (simp add: bind_exn_def)

lemma bind_exn_Inr: "bind_exn (Inr v) f = f v"
  by (simp add: bind_exn_def)

lemma py_index_Nil: "py_index [] i = Inl IndexError"
  by (simp add: py_index_def)

lemma py_index_Cons_0: "py_index (x # xs) 0 = Inr x"
  by (simp add: py_index_def)

lemma py_index_Cons_Suc: "py_index (x # xs) (Suc i) = py_index xs i"
  by (simp add: py_index_def)

lemmas py_index_simps = py_index_Nil py_index_Cons_0 py_index_Cons_Suc numeral_2_eq_2

text \<open>\<open>int\<close> raises nothing but \<open>ValueError\<close>.\<close>

lemma py_int_error: "py_int s base = Inl e \<Longrightarrow> e = ValueError"
  unfolding py_int_def Let_def
  by (simp split: prod.splits list.splits option.splits if_splits)

text \<open>\<open>split\<close> returns at least one piece.\<close>

lemma py_split_from_nonempty: "py_split_from sep cur s \<noteq> []"
  by (induction sep cur s rule: py_split_from.induct) auto

lemma py_split_nonempty: "py_split s sep \<noteq> []"
  by (simp add: py_split_def py_split_from_nonempty)

lemma list_two_cases:
  obtains "xs = []" | a where "xs = [a]" | a b r where "xs = a # b # r"
  by (cases xs rule: list.exhaust; cases "tl xs") auto

lemmas py_int_eval =
  py_split_def py_int_def skip_sign_def skip_prefix_def int_space_def digit_value_def
  int_max_str_digits_def

section \<open>Deserializer\<close>

text \<open>What \<open>parse\<close> does catch: a blank line, malformed text, and a record without
  its first field return \<open>None\<close>.\<close>

lemma parse_blank: "py_strip line = [] \<Longrightarrow> parse json_loads line = Inr None"
  by (simp add: parse_def parse_try_def)

lemma parse_malformed:
  "json_loads line = Inl JSONDecodeError \<Longrightarrow> parse json_loads line = Inr None"
  by (simp add: parse_def parse_try_def bind_exn_Inl isinstance_exn_def)

lemma parse_missing_first_field:
  "py_strip line \<noteq> [] \<Longrightarrow> json_loads line = Inr (PDict kvs) \<Longrightarrow>
   map_of kvs ''tokenPixelId'' = None \<Longrightarrow> parse json_loads line = Inr None"
  by (simp add: parse_def parse_try_def TokenPixel_of_def bind_exn_Inl bind_exn_Inr
      isinstance_exn_def)

text \<open>A record without \<open>autonomyIndex\<close>, complete up to there, is skipped.\<close>

lemma parse_missing_autonomyIndex:
  assumes "py_strip line \<noteq> []" and "json_loads line = Inr (PDict kvs)"
    and "map_of kvs ''tokenPixelId'' = Some v1" and "map_of kvs ''timestamp'' = Some v2"
    and "map_of kvs ''agentId'' = Some v3" and "map_of kvs ''corridor'' = Some v4"
    and "map_of kvs ''stateVector'' = Some d" and "StateVector_kwargs d = Inr v5"
    and "map_of kvs ''intentHash'' = Some v6" and "map_of kvs ''eventDelta'' = Some v7"
    and "map_of kvs ''autonomyIndex'' = None"
  shows "parse json_loads line = Inr None"
proof -
  have "TokenPixel_of (PDict kvs) = Inl KeyError"
    using assms(3-11) by (simp add: TokenPixel_of_def bind_exn_Inl bind_exn_Inr)
  with assms(1,2) show ?thesis
    by (simp add: parse_def parse_try_def bind_exn_Inl bind_exn_Inr isinstance_exn_def)
qed

text \<open>What it does not catch: the \<open>TypeError\<close> of a decoded value that is not an
  object, and of a \<open>stateVector\<close> that \<open>StateVector(**...)\<close> rejects.\<close>

lemma parse_non_object_raises:
  assumes "py_strip line \<noteq> []" and "json_loads line = Inr v" and "\<forall>kvs. v \<noteq> PDict kvs"
  shows "parse json_loads line = Inl TypeError"
proof -
  have "subscript v ''tokenPixelId'' = Inl TypeError"
    using assms(3) by (cases v) simp_all
  then have "TokenPixel_of v = Inl TypeError"
    by (simp add: TokenPixel_of_def bind_exn_Inl)
  with assms(1,2) show ?thesis
    by (simp add: parse_def parse_try_def bind_exn_Inl bind_exn_Inr isinstance_exn_def)
qed

lemma StateVector_kwargs_missing:
  "map_of sv ''phi'' = None \<or> map_of sv ''psi'' = None \<or> map_of sv ''omega'' = None \<or>
   map_of sv ''tau'' = None \<Longrightarrow> StateVector_kwargs (PDict sv) = Inl TypeError"
  by (auto split: option.splits)

lemma TokenPixel_of_bad_stateVector:
  assumes "map_of kvs ''tokenPixelId'' = Some v1" and "map_of kvs ''timestamp'' = Some v2"
    and "map_of kvs ''agentId'' = Some v3" and "map_of kvs ''corridor'' = Some v4"
    and "map_of kvs ''stateVector'' = Some d" and "StateVector_kwargs d = Inl TypeError"
  shows "TokenPixel_of (PDict kvs) = Inl TypeError"
  using assms by (simp add: TokenPixel_of_def bind_exn_Inl bind_exn_Inr)

lemma py_strip_missing_phi_line: "py_strip missing_phi_line \<noteq> []"
  by (simp add: py_strip_def missing_phi_line_def str_space_def)

text \<open>
  C2 says that \<open>parse\<close> never raises and that a record without a required field,
  nested fields of \<open>stateVector\<close> included, yields none. The code breaks this: when
  the text decodes to an object whose first four fields are present and whose
  \<open>stateVector\<close> object lacks \<open>phi\<close>, \<open>psi\<close>, \<open>omega\<close> or \<open>tau\<close>, the
  \<open>TypeError\<close> of \<open>StateVector(**...)\<close> passes both handlers and reaches the caller.
\<close>

theorem parse_nested_missing_field_raises:
  assumes "py_strip line \<noteq> []"
    and "json_loads line = Inr (PDict kvs)"
    and "map_of kvs ''tokenPixelId'' = Some v1" and "map_of kvs ''timestamp'' = Some v2"
    and "map_of kvs ''agentId'' = Some v3" and "map_of kvs ''corridor'' = Some v4"
    and "map_of kvs ''stateVector'' = Some (PDict sv)"
    and "map_of sv ''phi'' = None \<or> map_of sv ''psi'' = None \<or> map_of sv ''omega'' = None \<or>
         map_of sv ''tau'' = None"
  shows "parse json_loads line = Inl TypeError"
proof -
  have "TokenPixel_of (PDict kvs) = Inl TypeError"
    using assms(3-7) StateVector_kwargs_missing [OF assms(8)]
    by (rule TokenPixel_of_bad_stateVector)
  with assms(1,2) show ?thesis
    by (simp add: parse_def parse_try_def bind_exn_Inl bind_exn_Inr isinstance_exn_def)
qed

theorem parse_nested_missing_field_raises_witness:
  "py_strip missing_phi_line \<noteq> [] \<and>
   decodes_to missing_phi_line (PDict missing_phi_items) missing_phi_line =
     Inr (PDict missing_phi_items) \<and>
   map_of missing_phi_stateVector ''phi'' = None \<and>
   parse (decodes_to missing_phi_line (PDict missing_phi_items)) missing_phi_line = Inl TypeError"
  using py_strip_missing_phi_line
    parse_nested_missing_field_raises [of missing_phi_line
      "decodes_to missing_phi_line (PDict missing_phi_items)" missing_phi_items
      "PStr ''TPX_TEST_01''" "PFloat 1737140000" "PStr ''AGENT_Q''"
      "PStr ''DISTRICT_1.CHAMBER_0.NODE_START''" missing_phi_stateVector]
  by (simp add: decodes_to_def missing_phi_items_def missing_phi_stateVector_def)

section \<open>Phase quadrant\<close>

text \<open>In exact real arithmetic the formula gives a quadrant from 0 to 3 and has the
  period \<open>2\<pi>\<close>.\<close>

lemma quadrant_exact_range: "quadrant_exact x \<in> {0, 1, 2, 3}"
proof -
  define n where "n = \<lfloor>x / (2 * pi)\<rfloor>"
  define r where "r = x - 2 * pi * of_int n"
  have p: "0 < 2 * pi" by simp
  have "of_int n \<le> x / (2 * pi)" and "x / (2 * pi) < of_int n + 1"
    unfolding n_def by linarith+
  then have "of_int n * (2 * pi) \<le> x" and "x < (of_int n + 1) * (2 * pi)"
    using p by (simp_all add: pos_le_divide_eq pos_divide_less_eq)
  then have r: "0 \<le> r" "r < 2 * pi"
    unfolding r_def by (simp_all add: algebra_simps)
  have "0 \<le> r / (pi / 2)" using r(1) by simp
  moreover have "r / (pi / 2) < 4"
    using r(2) pi_gt_zero by (simp add: pos_divide_less_eq)
  ultimately have "0 \<le> \<lfloor>r / (pi / 2)\<rfloor>" and "\<lfloor>r / (pi / 2)\<rfloor> < 4"
    by (simp_all add: floor_less_iff)
  then have "\<lfloor>r / (pi / 2)\<rfloor> \<in> {0, 1, 2, 3}"
    by (simp only: insert_iff empty_iff) arith
  then show ?thesis
    unfolding quadrant_exact_def n_def [symmetric] r_def [symmetric] .
qed

lemma quadrant_exact_periodic: "quadrant_exact (x + 2 * pi * of_int k) = quadrant_exact x"
proof -
  have "(x + 2 * pi * of_int k) / (2 * pi) = x / (2 * pi) + of_int k"
    by (simp add: add_divide_distrib)
  then have "\<lfloor>(x + 2 * pi * of_int k) / (2 * pi)\<rfloor> = \<lfloor>x / (2 * pi)\<rfloor> + k"
    by simp
  then show ?thesis
    by (simp add: quadrant_exact_def algebra_simps)
qed

text \<open>The steps of \<open>get_phase_quadrant\<close> on the double of \<open>-1e-20\<close>: \<open>fmod\<close>
  returns the phase itself, adding \<open>2 * math.pi\<close> to it rounds to \<open>2 * math.pi\<close>,
  and the floored quotient of that by \<open>math.pi / 2\<close> is 4.\<close>

lemma phi_minus_1e_20_is_double: "fl (- 1 / 10 ^ 20) = phi_minus_1e_20"
  by code_simp

lemma two_pi_exact: "float_mul 2 math_pi = 2 * math_pi"
  by code_simp

lemma half_pi_exact: "float_truediv math_pi 2 = Inr (math_pi / 2)"
  by code_simp

lemma rem_tiny_negative: "float_rem phi_minus_1e_20 (2 * math_pi) = Inr (2 * math_pi)"
  by code_simp

lemma rem_two_pi: "float_rem (2 * math_pi) (2 * math_pi) = Inr 0"
  by code_simp

lemma floor_div_two_pi: "float_floor_div (2 * math_pi) (math_pi / 2) = Inr 4"
  by code_simp

lemma floor_div_zero: "float_floor_div 0 (math_pi / 2) = Inr 0"
  by code_simp

lemma add_two_pi_rounds: "fl (phi_minus_1e_20 + 2 * math_pi) = 2 * math_pi"
  by code_simp

text \<open>
  C7 says that the quadrant is always one of 0, 1, 2, 3 and that it does not change when
  a multiple of \<open>2\<pi>\<close> is added to the phase. The code breaks both on the phase
  \<open>-1e-20\<close>: its quadrant is 4, and the quadrant of \<open>-1e-20 + 2 * math.pi\<close> is 0.
\<close>

theorem get_phase_quadrant_returns_4:
  "get_phase_quadrant phi_minus_1e_20 = Inr 4 \<and>
   get_phase_quadrant (fl (phi_minus_1e_20 + float_mul 2 math_pi)) = Inr 0"
  by (simp add: get_phase_quadrant_def two_pi_exact half_pi_exact rem_tiny_negative
      rem_two_pi floor_div_two_pi floor_div_zero add_two_pi_rounds bind_exn_Inr py_trunc_def)

section \<open>Corridor parsing\<close>

text \<open>The \<open>try\<close> body of \<open>parse_corridor\<close> by the shape of the input.\<close>

lemma parse_corridor_try_eq:
  "parse_corridor_try s =
     (case py_split s ''.'' of
        [] \<Rightarrow> Inl IndexError
      | p0 # ps \<Rightarrow>
          (case py_split p0 ''_'' of
             a # d # r \<Rightarrow>
               (case py_int d 10 of
                  Inl e \<Rightarrow> Inl ValueError
                | Inr n \<Rightarrow>
                    (case ps of
                       ch # nd # rest \<Rightarrow> Inr \<lparr>district = n, chamber = ch, node = nd\<rparr>
                     | _ \<Rightarrow> Inl IndexError))
           | _ \<Rightarrow> Inl IndexError))"
proof (cases "py_split s ''.''")
  case Nil
  then show ?thesis using py_split_nonempty [of s "''.''"] by simp
next
  case parts: (Cons p0 ps)
  note defs = parse_corridor_try_def py_index_simps bind_exn_Inl bind_exn_Inr
  show ?thesis
  proof (cases "py_split p0 ''_''" rule: list_two_cases)
    case 1
    with parts show ?thesis by (simp add: defs)
  next
    case (2 a)
    with parts show ?thesis by (simp add: defs)
  next
    case pieces: (3 a d r)
    show ?thesis
    proof (cases "py_int d 10")
      case (Inl e)
      then have "e = ValueError" by (rule py_int_error)
      with Inl parts pieces show ?thesis by (simp add: defs)
    next
      case n: (Inr n)
      show ?thesis
      proof (cases ps rule: list_two_cases)
        case 1
        with parts pieces n show ?thesis by (simp add: defs)
      next
        case (2 ch)
        with parts pieces n show ?thesis by (simp add: defs)
      next
        case (3 ch nd rest)
        with parts pieces n show ?thesis by (simp add: defs)
      qed
    qed
  qed
qed

text \<open>The corridor of the test suite, a string of two segments, a first segment without
  an underscore and a district that is not a number.\<close>

lemma parse_corridor_examples:
  "parse_corridor ''DISTRICT_1.CHAMBER_0.NODE_START'' =
     Inr \<lparr>district = 1, chamber = ''CHAMBER_0'', node = ''NODE_START''\<rparr>"
  "parse_corridor ''DISTRICT_1.CHAMBER_0'' = Inr UNKNOWN_corridor"
  "parse_corridor ''DISTRICT1.CHAMBER_0.NODE_START'' = Inr UNKNOWN_corridor"
  "parse_corridor ''DISTRICT_X.CHAMBER_0.NODE_START'' = Inr UNKNOWN_corridor"
  by (simp_all add: parse_corridor_def parse_corridor_try_eq py_int_eval isinstance_exn_def)

text \<open>
  C3, as stated, is false: a corridor string of four segments is not mapped to the
  sentinel. \<open>DISTRICT_1.A.B.C\<close> has four segments and parses to district 1, chamber A,
  node B.
\<close>

theorem parse_corridor_four_segments:
  "length (py_split ''DISTRICT_1.A.B.C'' ''.'') = 4 \<and>
   parse_corridor ''DISTRICT_1.A.B.C'' = Inr \<lparr>district = 1, chamber = ''A'', node = ''B''\<rparr> \<and>
   parse_corridor ''DISTRICT_1.A.B.C'' \<noteq> Inr UNKNOWN_corridor"
  by (simp add: parse_corridor_def parse_corridor_try_eq py_int_eval UNKNOWN_corridor_def)

text \<open>
  C3, amended. For every corridor string \<open>parse_corridor\<close> returns a corridor and never
  raises. It splits on \<open>.\<close>; when there are at least three segments, segment 1 has at
  least two pieces between its underscores and the second piece reads as an integer, the
  result is that integer as district, segment 2 as chamber and segment 3 as node, and
  segments after the third are ignored. In every other case the result is the sentinel
  with district 0 and chamber and node \<open>UNKNOWN\<close>.
\<close>

theorem parse_corridor_shape:
  "parse_corridor s =
     Inr (case py_split s ''.'' of
            p0 # ch # nd # rest \<Rightarrow>
              (case py_split p0 ''_'' of
                 a # d # rest' \<Rightarrow>
                   (case py_int d 10 of
                      Inr n \<Rightarrow> \<lparr>district = n, chamber = ch, node = nd\<rparr>
                    | Inl e \<Rightarrow> UNKNOWN_corridor)
               | _ \<Rightarrow> UNKNOWN_corridor)
          | _ \<Rightarrow> UNKNOWN_corridor)"
  unfolding parse_corridor_def parse_corridor_try_eq
  by (auto simp: isinstance_exn_def split: list.split sum.split)

section \<open>Voxel decoding and collision test\<close>


lemma mask_27_bounds: "0 \<le> (v::int) AND 0x7FFFFFF \<and> v AND 0x7FFFFFF < 2 ^ 27"
proof -
  have "v AND 0x7FFFFFF \<le> 0x7FFFFFF"
    by (rule AND_upper2) simp
  then show ?thesis by simp
qed

lemma decode_try_eq:
  "decode_try signature =
     (case py_split signature ''0x'' of
        a # h # rest \<Rightarrow>
          (case py_int h 16 of
             Inl e \<Rightarrow> Inl ValueError
           | Inr hash_val \<Rightarrow> Inr (hash_val AND 0x7FFFFFF))
      | _ \<Rightarrow> Inl IndexError)"
proof (cases "py_split signature ''0x''" rule: list_two_cases)
  case 1
  then show ?thesis by (simp add: decode_try_def py_index_simps bind_exn_Inl)
next
  case (2 a)
  then show ?thesis by (simp add: decode_try_def py_index_simps bind_exn_Inl)
next
  case pieces: (3 a h rest)
  show ?thesis
  proof (cases "py_int h 16")
    case (Inl e)
    then have "e = ValueError" by (rule py_int_error)
    with Inl pieces show ?thesis
      by (simp add: decode_try_def py_index_simps bind_exn_Inl bind_exn_Inr)
  next
    case (Inr hash_val)
    with pieces show ?thesis
      by (simp add: decode_try_def py_index_simps bind_exn_Inr)
  qed
qed

text \<open>
  C6. On a cache miss \<open>decode_voxel_signature\<close> returns an integer and never raises.
  The integer is the text between the first and the second marker \<open>0x\<close> (or the end),
  read in base 16 and masked to the low 27 bits, so it lies in \<open>[0, 2^27)\<close>; without a
  marker, or when that text does not read as a base-16 integer, it is 0.
\<close>

theorem decode_voxel_signature_cache_miss:
  assumes "voxel_cache signature = None"
  shows "\<exists>bits. fst (decode_voxel_signature voxel_cache signature) = Inr bits \<and>
           0 \<le> bits \<and> bits < 2 ^ 27 \<and>
           bits = (case py_split signature ''0x'' of
                     a # h # rest \<Rightarrow>
                       (case py_int h 16 of
                          Inr hash_val \<Rightarrow> hash_val AND 0x7FFFFFF
                        | Inl e \<Rightarrow> 0)
                   | _ \<Rightarrow> 0)"
  using assms mask_27_bounds
  unfolding decode_voxel_signature_def decode_try_eq
  by (auto simp: isinstance_exn_def split: list.split sum.split)

theorem decode_voxel_signature_cache_miss_witness:
  "(Map.empty :: string \<rightharpoonup> int) ''VXL_0x00000004'' = None \<and>
   fst (decode_voxel_signature Map.empty ''VXL_0x00000004'') = Inr 4 \<and>
   fst (decode_voxel_signature Map.empty ''no marker'') = Inr 0 \<and>
   fst (decode_voxel_signature Map.empty ''VXL_0xZZ'') = Inr 0"
  using decode_voxel_signature_cache_miss [of Map.empty "''VXL_0x00000004''"]
    decode_voxel_signature_cache_miss [of Map.empty "''no marker''"]
    decode_voxel_signature_cache_miss [of Map.empty "''VXL_0xZZ''"]
  by (simp add: py_int_eval)








section \<open>Drift monitor\<close>

lemma check_drift_status:
  "fst (check_drift m x) =
     (if x \<ge> critical_threshold m then DriftStatus_CRITICAL
      else if x \<ge> warning_threshold m then DriftStatus_WARNING
      else DriftStatus_NOMINAL)"
  by (simp add: check_drift_def Let_def)

lemma check_drift_history:
  "drift_history (snd (check_drift m x)) =
     (if length (drift_history m @ [x]) > 100 then tl (drift_history m @ [x])
      else drift_history m @ [x])"
  by (simp add: check_drift_def Let_def)

text \<open>The history after a sequence of calls, from any monitor that holds at most 100
  samples.\<close>

lemma check_drift_all_history:
  "length (drift_history m) \<le> 100 \<Longrightarrow>
   drift_history (check_drift_all m xs) =
     drop (length (drift_history m @ xs) - 100) (drift_history m @ xs)"
proof (induction xs arbitrary: m)
  case Nil
  then show ?case by simp
next
  case (Cons x xs)
  let ?m' = "snd (check_drift m x)"
  show ?case
  proof (cases "length (drift_history m) = 100")
    case True
    then have h': "drift_history ?m' = tl (drift_history m @ [x])"
      by (simp add: check_drift_history)
    then have len: "length (drift_history ?m') \<le> 100"
      using True by simp
    obtain y ys where ys: "drift_history m = y # ys"
      using True by (cases "drift_history m") auto
    have "drift_history ?m' @ xs = drop 1 (drift_history m @ x # xs)"
      using h' ys by simp
    moreover have "length (drift_history ?m' @ xs) = length xs + 100"
      using h' True by simp
    ultimately show ?thesis
      using Cons.IH [OF len] True by simp
  next
    case False
    with Cons.prems have lt: "length (drift_history m) < 100" by simp
    then have h': "drift_history ?m' = drift_history m @ [x]"
      by (simp add: check_drift_history)
    then have len: "length (drift_history ?m') \<le> 100"
      using lt by simp
    show ?thesis
      using Cons.IH [OF len] h' by simp
  qed
qed

text \<open>
  C4. With the default thresholds 0.3 and 0.7, \<open>check_drift\<close> returns CRITICAL exactly
  when the index is at least 0.7, WARNING exactly when it is below 0.7 and at least 0.3,
  and NOMINAL exactly when it is below both; 0.95 gives CRITICAL, 0.5 gives WARNING and
  0.1 gives NOMINAL. The status is the same for every monitor with the same two
  thresholds, whatever its history.
\<close>

theorem check_drift_default_thresholds:
  assumes "warning_threshold m = lit_0_3" and "critical_threshold m = lit_0_7"
  shows "(fst (check_drift m x) = ''CRITICAL'' \<longleftrightarrow> x \<ge> lit_0_7) \<and>
         (fst (check_drift m x) = ''WARNING'' \<longleftrightarrow> \<not> x \<ge> lit_0_7 \<and> x \<ge> lit_0_3) \<and>
         (fst (check_drift m x) = ''NOMINAL'' \<longleftrightarrow> \<not> x \<ge> lit_0_7 \<and> \<not> x \<ge> lit_0_3) \<and>
         fst (check_drift m lit_0_95) = ''CRITICAL'' \<and>
         fst (check_drift m lit_0_5) = ''WARNING'' \<and>
         fst (check_drift m lit_0_1) = ''NOMINAL'' \<and>
         (\<forall>m'. warning_threshold m' = warning_threshold m \<and>
               critical_threshold m' = critical_threshold m \<longrightarrow>
               fst (check_drift m' x) = fst (check_drift m x))"
  using assms
  by (simp add: check_drift_status DriftStatus_CRITICAL_def DriftStatus_WARNING_def
      DriftStatus_NOMINAL_def lit_0_3_def lit_0_7_def lit_0_95_def lit_0_5_def lit_0_1_def)

theorem check_drift_default_thresholds_witness:
  "fst (check_drift (AutonomyDriftMonitor_init lit_0_3 lit_0_7) lit_0_95) = ''CRITICAL'' \<and>
   fst (check_drift (AutonomyDriftMonitor_init lit_0_3 lit_0_7) lit_0_5) = ''WARNING'' \<and>
   fst (check_drift (AutonomyDriftMonitor_init lit_0_3 lit_0_7) lit_0_1) = ''NOMINAL'' \<and>
   fst (check_drift ((AutonomyDriftMonitor_init lit_0_3 lit_0_7)\<lparr>drift_history := [lit_0_95, lit_0_95]\<rparr>) lit_0_1)
     = fst (check_drift (AutonomyDriftMonitor_init lit_0_3 lit_0_7) lit_0_1)"
  using check_drift_default_thresholds [of "AutonomyDriftMonitor_init lit_0_3 lit_0_7" lit_0_1]
  by (simp add: AutonomyDriftMonitor_init_def)

text \<open>
  C9. After any sequence of \<open>check_drift\<close> calls on a fresh monitor the history is the
  last \<open>min n 100\<close> samples in arrival order, so it never holds more than 100 entries.
  One call appends the sample and, when that makes more than 100 entries, removes the
  oldest one.
\<close>

theorem drift_history_last_100:
  "drift_history (check_drift_all (AutonomyDriftMonitor_init w c) xs) = drop (length xs - 100) xs \<and>
   length (drift_history (check_drift_all (AutonomyDriftMonitor_init w c) xs)) = min (length xs) 100 \<and>
   length (drift_history (check_drift_all (AutonomyDriftMonitor_init w c) xs)) \<le> 100 \<and>
   drift_history (snd (check_drift m x)) =
     (if length (drift_history m @ [x]) > 100 then tl (drift_history m @ [x])
      else drift_history m @ [x])"
proof -
  have "drift_history (check_drift_all (AutonomyDriftMonitor_init w c) xs) = drop (length xs - 100) xs"
    using check_drift_all_history [of "AutonomyDriftMonitor_init w c" xs]
    by (simp add: AutonomyDriftMonitor_init_def)
  then show ?thesis
    by (auto simp: check_drift_history)
qed

section \<open>Action executor\<close>

text \<open>An exception of the callable that is derived from \<open>Exception\<close> but whose
  \<open>str(e)\<close> raises is not turned into a result: what \<open>str(e)\<close> raised leaves
  \<open>execute\<close>.\<close>

lemma execute_str_raises:
  "registry action_name = Some (Callable f) \<Longrightarrow> f kwargs = Inl e \<Longrightarrow> derives_Exception e \<Longrightarrow>
   exn_str e = Inl e' \<Longrightarrow> execute registry action_name kwargs = Inl e'"
  by (simp add: execute_def execute_try_def)

lemma execute_str_raises_example:
  "execute sample_registry ''SENSE'' Map.empty =
     Inl (PyExn ''AttributeError'' True (Inr ''object has no attribute code''))"
  by (simp add: execute_def execute_try_def sample_registry_def unprintable_action_def)

text \<open>
  C8, as stated, is false: \<open>execute\<close> does propagate an exception of a registered
  callable when its class is not derived from \<open>Exception\<close>. The callable registered
  as \<open>STOP\<close> raises \<open>KeyboardInterrupt\<close>, and \<open>execute\<close> raises it to its caller.
\<close>

theorem execute_propagates_keyboard_interrupt:
  "sample_registry ''STOP'' = Some (Callable interrupted_action) \<and>
   interrupted_action Map.empty = Inl (PyExn ''KeyboardInterrupt'' False (Inr [])) \<and>
   execute sample_registry ''STOP'' Map.empty = Inl (PyExn ''KeyboardInterrupt'' False (Inr []))"
  by (simp add: execute_def execute_try_def sample_registry_def interrupted_action_def)

text \<open>
  C8, amended. A name that is not in the registry gives \<open>success = False\<close> with the
  non-empty error \<open>Unknown action: <name>\<close> and raises nothing. A registered callable
  is called with the parameters as keyword arguments: its value is returned with
  \<open>success = True\<close>; its failure, when it is derived from \<open>Exception\<close> and has a
  message \<open>str(e)\<close>, is caught and returned as \<open>success = False\<close> with that
  message; an exception that is not derived from \<open>Exception\<close> propagates to the
  caller. An entry that is not callable is itself returned with \<open>success = True\<close>.
  Nothing else leaves \<open>execute\<close>: an exception that reaches the caller was raised by
  the callable outside \<open>Exception\<close>, or by \<open>str(e)\<close> of a failure of the callable.
\<close>

theorem execute_catches_failures:
  "(registry action_name = None \<longrightarrow>
      execute registry action_name kwargs =
        Inr \<lparr>success = False, result = PNone,
             error = Some (''Unknown action: '' @ action_name)\<rparr> \<and>
      ''Unknown action: '' @ action_name \<noteq> []) \<and>
   (registry action_name = Some (Callable f) \<and> f kwargs = Inr v \<longrightarrow>
      execute registry action_name kwargs = Inr \<lparr>success = True, result = v, error = None\<rparr>) \<and>
   (registry action_name = Some (Callable f) \<and> f kwargs = Inl e \<and> derives_Exception e \<and>
    exn_str e = Inr msg \<longrightarrow>
      execute registry action_name kwargs =
        Inr \<lparr>success = False, result = PNone, error = Some msg\<rparr>) \<and>
   (registry action_name = Some (Callable f) \<and> f kwargs = Inl e \<and> \<not> derives_Exception e \<longrightarrow>
      execute registry action_name kwargs = Inl e) \<and>
   (registry action_name = Some (NotCallable v) \<longrightarrow>
      execute registry action_name kwargs = Inr \<lparr>success = True, result = v, error = None\<rparr>) \<and>
   (\<forall>x. execute registry action_name kwargs = Inl x \<longrightarrow>
      (\<exists>g e'. registry action_name = Some (Callable g) \<and> g kwargs = Inl e' \<and>
          (if derives_Exception e' then exn_str e' = Inl x else x = e')))"
proof -
  have absent: "registry action_name = None \<longrightarrow>
      execute registry action_name kwargs =
        Inr \<lparr>success = False, result = PNone,
             error = Some (''Unknown action: '' @ action_name)\<rparr> \<and>
      ''Unknown action: '' @ action_name \<noteq> []"
    by (simp add: execute_def)
  have returns: "registry action_name = Some (Callable f) \<and> f kwargs = Inr v \<longrightarrow>
      execute registry action_name kwargs = Inr \<lparr>success = True, result = v, error = None\<rparr>"
    by (simp add: execute_def execute_try_def)
  have fails: "registry action_name = Some (Callable f) \<and> f kwargs = Inl e \<and>
      derives_Exception e \<and> exn_str e = Inr msg \<longrightarrow>
      execute registry action_name kwargs =
        Inr \<lparr>success = False, result = PNone, error = Some msg\<rparr>"
    by (simp add: execute_def execute_try_def)
  have passes: "registry action_name = Some (Callable f) \<and> f kwargs = Inl e \<and>
      \<not> derives_Exception e \<longrightarrow> execute registry action_name kwargs = Inl e"
    by (simp add: execute_def execute_try_def)
  have plain: "registry action_name = Some (NotCallable v) \<longrightarrow>
      execute registry action_name kwargs = Inr \<lparr>success = True, result = v, error = None\<rparr>"
    by (simp add: execute_def execute_try_def)
  have leaves: "\<forall>x. execute registry action_name kwargs = Inl x \<longrightarrow>
      (\<exists>g e'. registry action_name = Some (Callable g) \<and> g kwargs = Inl e' \<and>
          (if derives_Exception e' then exn_str e' = Inl x else x = e'))"
  proof (intro allI impI)
    fix x
    assume x: "execute registry action_name kwargs = Inl x"
    then obtain action_func where reg: "registry action_name = Some action_func"
      by (cases "registry action_name") (simp_all add: execute_def)
    with x obtain g where g: "action_func = Callable g"
      by (cases action_func) (simp_all add: execute_def execute_try_def)
    with x reg obtain e' where e': "g kwargs = Inl e'"
      by (cases "g kwargs") (simp_all add: execute_def execute_try_def)
    have "if derives_Exception e' then exn_str e' = Inl x else x = e'"
      using x reg g e'
      by (auto simp: execute_def execute_try_def split: if_splits sum.splits)
    with reg g e' show "\<exists>g e'. registry action_name = Some (Callable g) \<and> g kwargs = Inl e' \<and>
          (if derives_Exception e' then exn_str e' = Inl x else x = e')"
      by blast
  qed
  show ?thesis by (intro conjI absent returns fails passes plain leaves)
qed

theorem execute_catches_failures_witness:
  "execute sample_registry ''SELF_DESTRUCT'' Map.empty =
     Inr \<lparr>success = False, result = PNone, error = Some ''Unknown action: SELF_DESTRUCT''\<rparr> \<and>
   execute sample_registry ''CONTINUE'' Map.empty =
     Inr \<lparr>success = True, result = PDict [(''status'', PStr ''CONTINUING'')], error = None\<rparr> \<and>
   execute sample_registry ''CONTINUE'' [''direction'' \<mapsto> PStr ''left''] =
     Inr \<lparr>success = False, result = PNone,
          error = Some ''continue_op() got an unexpected keyword argument''\<rparr> \<and>
   execute sample_registry ''FAIL'' Map.empty =
     Inr \<lparr>success = False, result = PNone, error = Some ''actuator offline''\<rparr> \<and>
   execute sample_registry ''STOP'' Map.empty = Inl (PyExn ''KeyboardInterrupt'' False (Inr [])) \<and>
   execute sample_registry ''VERSION'' Map.empty =
     Inr \<lparr>success = True, result = PStr ''1.0'', error = None\<rparr> \<and>
   (\<exists>g e'. sample_registry ''STOP'' = Some (Callable g) \<and> g Map.empty = Inl e' \<and>
      \<not> derives_Exception e')"
proof -
  have "sample_registry ''SELF_DESTRUCT'' = None"
    by (simp add: sample_registry_def)
  from execute_catches_failures
    [of sample_registry "''SELF_DESTRUCT''" Map.empty, THEN conjunct1, rule_format, OF this]
  have 1: "execute sample_registry ''SELF_DESTRUCT'' Map.empty =
     Inr \<lparr>success = False, result = PNone, error = Some ''Unknown action: SELF_DESTRUCT''\<rparr>"
    by simp
  have "sample_registry ''CONTINUE'' = Some (Callable continue_op) \<and>
      continue_op Map.empty = Inr (PDict [(''status'', PStr ''CONTINUING'')])"
    by (simp add: sample_registry_def continue_op_def)
  from execute_catches_failures
    [of sample_registry "''CONTINUE''" Map.empty continue_op
      "PDict [(''status'', PStr ''CONTINUING'')]",
     THEN conjunct2, THEN conjunct1, rule_format, OF this]
  have 2: "execute sample_registry ''CONTINUE'' Map.empty =
     Inr \<lparr>success = True, result = PDict [(''status'', PStr ''CONTINUING'')], error = None\<rparr>" .
  have "sample_registry ''CONTINUE'' = Some (Callable continue_op) \<and>
      continue_op [''direction'' \<mapsto> PStr ''left''] =
        Inl (PyExn ''TypeError'' True
               (Inr ''continue_op() got an unexpected keyword argument'')) \<and>
      derives_Exception (PyExn ''TypeError'' True
               (Inr ''continue_op() got an unexpected keyword argument'')) \<and>
      exn_str (PyExn ''TypeError'' True
               (Inr ''continue_op() got an unexpected keyword argument'')) =
        Inr ''continue_op() got an unexpected keyword argument''"
    by (simp add: sample_registry_def continue_op_def)
  from execute_catches_failures
    [of sample_registry "''CONTINUE''" "[''direction'' \<mapsto> PStr ''left'']" continue_op _
      "PyExn ''TypeError'' True (Inr ''continue_op() got an unexpected keyword argument'')"
      "''continue_op() got an unexpected keyword argument''",
     THEN conjunct2, THEN conjunct2, THEN conjunct1, rule_format, OF this]
  have 3: "execute sample_registry ''CONTINUE'' [''direction'' \<mapsto> PStr ''left''] =
     Inr \<lparr>success = False, result = PNone,
          error = Some ''continue_op() got an unexpected keyword argument''\<rparr>" .
  have "sample_registry ''FAIL'' = Some (Callable failing_action) \<and>
      failing_action Map.empty = Inl (PyExn ''RuntimeError'' True (Inr ''actuator offline'')) \<and>
      derives_Exception (PyExn ''RuntimeError'' True (Inr ''actuator offline'')) \<and>
      exn_str (PyExn ''RuntimeError'' True (Inr ''actuator offline'')) = Inr ''actuator offline''"
    by (simp add: sample_registry_def failing_action_def)
  from execute_catches_failures
    [of sample_registry "''FAIL''" Map.empty failing_action _
      "PyExn ''RuntimeError'' True (Inr ''actuator offline'')" "''actuator offline''",
     THEN conjunct2, THEN conjunct2, THEN conjunct1, rule_format, OF this]
  have 4: "execute sample_registry ''FAIL'' Map.empty =
     Inr \<lparr>success = False, result = PNone, error = Some ''actuator offline''\<rparr>" .
  have "sample_registry ''STOP'' = Some (Callable interrupted_action) \<and>
      interrupted_action Map.empty = Inl (PyExn ''KeyboardInterrupt'' False (Inr [])) \<and>
      \<not> derives_Exception (PyExn ''KeyboardInterrupt'' False (Inr []))"
    by (simp add: sample_registry_def interrupted_action_def)
  from execute_catches_failures
    [of sample_registry "''STOP''" Map.empty interrupted_action _
      "PyExn ''KeyboardInterrupt'' False (Inr [])",
     THEN conjunct2, THEN conjunct2, THEN conjunct2, THEN conjunct1, rule_format, OF this]
  have 5: "execute sample_registry ''STOP'' Map.empty =
     Inl (PyExn ''KeyboardInterrupt'' False (Inr []))" .
  have "sample_registry ''VERSION'' = Some (NotCallable (PStr ''1.0''))"
    by (simp add: sample_registry_def)
  from execute_catches_failures
    [of sample_registry "''VERSION''" Map.empty _ "PStr ''1.0''",
     THEN conjunct2, THEN conjunct2, THEN conjunct2, THEN conjunct2, THEN conjunct1,
     rule_format, OF this]
  have 6: "execute sample_registry ''VERSION'' Map.empty =
     Inr \<lparr>success = True, result = PStr ''1.0'', error = None\<rparr>" .
  from execute_catches_failures
    [of sample_registry "''STOP''" Map.empty,
     THEN conjunct2, THEN conjunct2, THEN conjunct2, THEN conjunct2, THEN conjunct2,
     rule_format, OF 5]
  obtain g e' where
    g: "sample_registry ''STOP'' = Some (Callable g)" "g Map.empty = Inl e'"
      "if derives_Exception e' then exn_str e' = Inl (PyExn ''KeyboardInterrupt'' False (Inr []))
       else PyExn ''KeyboardInterrupt'' False (Inr []) = e'"
    by blast
  from g(1) have "g = interrupted_action"
    by (simp add: sample_registry_def)
  with g(2) have "\<not> derives_Exception e'"
    by (auto simp: interrupted_action_def)
  with g have 7: "\<exists>g e'. sample_registry ''STOP'' = Some (Callable g) \<and> g Map.empty = Inl e' \<and>
      \<not> derives_Exception e'"
    by blast
  show ?thesis by (intro conjI 1 2 3 4 5 6 7)
qed

section \<open>The decision rule\<close>

text \<open>
  C1. \<open>decide\<close> is an ordered chain in which the first matching rule wins: critical
  drift gives HALT without parameters; otherwise a collision ahead gives AVOID_OBSTACLE
  with direction "left"; otherwise a context that is not aligned gives REALIGN_INTENT
  with target_psi 0.8; otherwise the label EXECUTE_URGENT gives EXECUTE_IMMEDIATE without
  parameters; otherwise CONTINUE without parameters and with the reason "Nominal
  operation". As instances of the chain, critical drift with a collision ahead gives HALT
  and not AVOID_OBSTACLE, and a collision ahead in a context that is not aligned never
  gives REALIGN_INTENT: it gives AVOID_OBSTACLE, the first rule permitting, and HALT when
  the drift is critical.
\<close>

theorem decide_priority_chain:
  "(drift_status c = ''CRITICAL'' \<longrightarrow>
      action (decide c) = ''HALT'' \<and> params (decide c) = Map.empty) \<and>
   (drift_status c \<noteq> ''CRITICAL'' \<and> collision_ahead c \<longrightarrow>
      action (decide c) = ''AVOID_OBSTACLE'' \<and>
      params (decide c) = [''direction'' \<mapsto> PStr ''left'']) \<and>
   (drift_status c \<noteq> ''CRITICAL'' \<and> \<not> collision_ahead c \<and> \<not> aligned c \<longrightarrow>
      action (decide c) = ''REALIGN_INTENT'' \<and>
      params (decide c) = [''target_psi'' \<mapsto> PFloat lit_0_8]) \<and>
   (drift_status c \<noteq> ''CRITICAL'' \<and> \<not> collision_ahead c \<and> aligned c \<and>
    intent_label c = Some ''EXECUTE_URGENT'' \<longrightarrow>
      action (decide c) = ''EXECUTE_IMMEDIATE'' \<and> params (decide c) = Map.empty) \<and>
   (drift_status c \<noteq> ''CRITICAL'' \<and> \<not> collision_ahead c \<and> aligned c \<and>
    intent_label c \<noteq> Some ''EXECUTE_URGENT'' \<longrightarrow>
      action (decide c) = ''CONTINUE'' \<and> params (decide c) = Map.empty \<and>
      reason (decide c) = ''Nominal operation'') \<and>
   (drift_status c = ''CRITICAL'' \<and> collision_ahead c \<longrightarrow>
      action (decide c) = ''HALT'' \<and> action (decide c) \<noteq> ''AVOID_OBSTACLE'') \<and>
   (collision_ahead c \<and> \<not> aligned c \<longrightarrow> action (decide c) \<noteq> ''REALIGN_INTENT'') \<and>
   (drift_status c \<noteq> ''CRITICAL'' \<and> collision_ahead c \<and> \<not> aligned c \<longrightarrow>
      action (decide c) = ''AVOID_OBSTACLE'') \<and>
   (drift_status c = ''CRITICAL'' \<and> collision_ahead c \<and> \<not> aligned c \<longrightarrow>
      action (decide c) = ''HALT'')"
  by (simp add: decide_def DriftStatus_CRITICAL_def)

theorem decide_priority_chain_witness:
  "action (decide (sample_context\<lparr>drift_status := ''CRITICAL'', collision_ahead := True\<rparr>)) = ''HALT'' \<and>
   action (decide (sample_context\<lparr>collision_ahead := True, aligned := False\<rparr>)) = ''AVOID_OBSTACLE'' \<and>
   action (decide (sample_context\<lparr>aligned := False\<rparr>)) = ''REALIGN_INTENT'' \<and>
   action (decide (sample_context\<lparr>intent_label := Some ''EXECUTE_URGENT''\<rparr>)) = ''EXECUTE_IMMEDIATE'' \<and>
   action (decide sample_context) = ''CONTINUE'' \<and>
   action (decide critical_collision_context) = ''HALT''"
  using decide_priority_chain [of "sample_context\<lparr>drift_status := ''CRITICAL'', collision_ahead := True\<rparr>"]
        decide_priority_chain [of "sample_context\<lparr>collision_ahead := True, aligned := False\<rparr>"]
        decide_priority_chain [of "sample_context\<lparr>aligned := False\<rparr>"]
        decide_priority_chain [of "sample_context\<lparr>intent_label := Some ''EXECUTE_URGENT''\<rparr>"]
        decide_priority_chain [of sample_context]
        decide_priority_chain [of critical_collision_context]
  by (simp add: sample_context_def critical_collision_context_def)

text \<open>
  C10. Two contexts that agree on \<open>drift_status\<close>, \<open>collision_ahead\<close>, \<open>aligned\<close> and
  \<open>intent_label\<close> get the same decision, action, reason and parameters alike: the
  corridor, the quadrant, the activity and the pixel have no influence.
\<close>

theorem decide_ignores_other_entries:
  assumes "drift_status c1 = drift_status c2"
    and "collision_ahead c1 = collision_ahead c2"
    and "aligned c1 = aligned c2"
    and "intent_label c1 = intent_label c2"
  shows "decide c1 = decide c2"
  using assms by (simp add: decide_def)

theorem decide_ignores_other_entries_witness:
  "drift_status sample_context = drift_status other_context \<and>
   collision_ahead sample_context = collision_ahead other_context \<and>
   aligned sample_context = aligned other_context \<and>
   intent_label sample_context = intent_label other_context \<and>
   corridor sample_context \<noteq> corridor other_context \<and>
   quadrant sample_context \<noteq> quadrant other_context \<and>
   activity sample_context \<noteq> activity other_context \<and>
   pixel sample_context \<noteq> pixel other_context \<and>
   decide sample_context = decide other_context"
proof -
  have h: "drift_status sample_context = drift_status other_context"
    "collision_ahead sample_context = collision_ahead other_context"
    "aligned sample_context = aligned other_context"
    "intent_label sample_context = intent_label other_context"
    by (simp_all add: sample_context_def other_context_def)
  have d: "corridor sample_context \<noteq> corridor other_context"
    "quadrant sample_context \<noteq> quadrant other_context"
    "activity sample_context \<noteq> activity other_context"
    "pixel sample_context \<noteq> pixel other_context"
    by (simp_all add: sample_context_def other_context_def UNKNOWN_corridor_def sample_pixel_def)
  show ?thesis
    using h d decide_ignores_other_entries [OF h] by simp
qed

end
